theory Spec2Isabelle
  imports Complex_Main
begin

section \<open>Python values and string formatting used by the program\<close>

text \<open>
  Every call of \<^verbatim>\<open>time.monotonic()\<close> and \<^verbatim>\<open>time.time()\<close> becomes an explicit argument
  of the function that makes the call, in the order of the calls; a reading is used
  only on the path where the source reads the clock. A clock reading is a finite float
  and is modelled as a \<^typ>\<open>real\<close>.

  Differences of finite floats are exact in the model: rounding to 53 bits is not
  modelled, and a difference is finite. (A difference of two doubles is out of range
  only if both have a magnitude of \<^verbatim>\<open>2^970\<close> or more, and every difference that the
  program takes has a clock reading, or a difference of clock readings, on one side,
  unless the file holds a \<^verbatim>\<open>started_at\<close> of that size.) The conversion of an int to a
  float and the product with \<^verbatim>\<open>60.0\<close> do leave the range, for minutes that the session
  accepts, and are modelled with their overflow.

  The attributes of the timer are finite (its \<^verbatim>\<open>start\<close> accepts 1 to 60 minutes only)
  and are modelled as \<^typ>\<open>real\<close>. The session accepts any int and reads any float from
  its file, so its float attributes are values of \<open>pyfloat\<close>, which has the two
  infinities and NaN.
\<close>

text \<open>\<^verbatim>\<open>str(n)\<close> for a non-negative integer: its decimal digits.\<close>

definition digit_char :: "nat \<Rightarrow> char" where
  "digit_char d = ''0123456789'' ! d"

fun str_nat :: "nat \<Rightarrow> string" where
  "str_nat n =
     (if n < 10 then [digit_char n]
      else str_nat (n div 10) @ [digit_char (n mod 10)])"

declare str_nat.simps [simp del]

text \<open>\<^verbatim>\<open>str(n)\<close>, which is what \<^verbatim>\<open>f"{n}"\<close> prints for an int.\<close>

definition str_int :: "int \<Rightarrow> string" where
  "str_int n = (if n < 0 then CHR ''-'' # str_nat (nat (- n)) else str_nat (nat n))"

text \<open>\<^verbatim>\<open>f"{n:02d}"\<close>: the decimal text, zero-padded on the left to width two.\<close>

definition format_02d :: "int \<Rightarrow> string" where
  "format_02d n = (let s = str_int n in if length s < 2 then CHR ''0'' # s else s)"

text \<open>The exceptions that the program raises or lets through, each with its message.\<close>

datatype error =
  TypeError string | ValueError string | InvalidStateError string | OverflowError string

section \<open>Python floats\<close>

datatype pyfloat = Float real | PosInf | NegInf | NaN

text \<open>
  A real of magnitude \<^verbatim>\<open>2^1024 - 2^970\<close> or more rounds to an infinity as a double;
  the largest finite double is \<^verbatim>\<open>2^1024 - 2^971\<close>.
\<close>

definition FLOAT_OVERFLOW :: real where
  "FLOAT_OVERFLOW = 2 ^ 1024 - 2 ^ 970"

text \<open>The float that a product of two finite floats gives, from its exact value.\<close>

definition float_of_real :: "real \<Rightarrow> pyfloat" where
  "float_of_real x =
     (if FLOAT_OVERFLOW \<le> x then PosInf
      else if x \<le> - FLOAT_OVERFLOW then NegInf
      else Float x)"

text \<open>
  \<^verbatim>\<open>n * c\<close> for an int \<open>n\<close> and a finite float \<open>c\<close>: the int is converted to a float
  first, which raises \<open>OverflowError\<close> when it is out of the range of the doubles; the
  product of the two floats overflows to an infinity without an exception.
\<close>

definition int_times_float :: "int \<Rightarrow> real \<Rightarrow> error + pyfloat" where
  "int_times_float n c =
     (if FLOAT_OVERFLOW \<le> \<bar>real_of_int n\<bar>
      then Inl (OverflowError ''int too large to convert to float'')
      else Inr (float_of_real (real_of_int n * c)))"

text \<open>\<^verbatim>\<open>a - b\<close> on floats.\<close>

fun float_sub :: "pyfloat \<Rightarrow> pyfloat \<Rightarrow> pyfloat" where
  "float_sub (Float a) (Float b) = Float (a - b)"
| "float_sub NaN _ = NaN"
| "float_sub _ NaN = NaN"
| "float_sub PosInf PosInf = NaN"
| "float_sub NegInf NegInf = NaN"
| "float_sub PosInf _ = PosInf"
| "float_sub NegInf _ = NegInf"
| "float_sub (Float a) PosInf = NegInf"
| "float_sub (Float a) NegInf = PosInf"

text \<open>\<^verbatim>\<open>a <= b\<close> and \<^verbatim>\<open>a < b\<close> on floats: false as soon as one side is NaN.\<close>

fun float_le :: "pyfloat \<Rightarrow> pyfloat \<Rightarrow> bool" where
  "float_le NaN _ = False"
| "float_le _ NaN = False"
| "float_le (Float a) (Float b) = (a \<le> b)"
| "float_le NegInf _ = True"
| "float_le _ PosInf = True"
| "float_le PosInf _ = False"
| "float_le _ NegInf = False"

fun float_less :: "pyfloat \<Rightarrow> pyfloat \<Rightarrow> bool" where
  "float_less NaN _ = False"
| "float_less _ NaN = False"
| "float_less (Float a) (Float b) = (a < b)"
| "float_less PosInf _ = False"
| "float_less _ NegInf = False"
| "float_less NegInf _ = True"
| "float_less _ PosInf = True"

text \<open>\<^verbatim>\<open>max(a, b)\<close>: the first argument, unless the second is greater.\<close>

definition py_max :: "pyfloat \<Rightarrow> pyfloat \<Rightarrow> pyfloat" where
  "py_max a b = (if float_less a b then b else a)"

text \<open>
  \<^verbatim>\<open>int(x)\<close> on a float truncates towards zero, and raises on an infinity and on NaN.
\<close>

definition trunc_real :: "real \<Rightarrow> int" where
  "trunc_real x = (if 0 \<le> x then \<lfloor>x\<rfloor> else \<lceil>x\<rceil>)"

fun py_int :: "pyfloat \<Rightarrow> error + int" where
  "py_int (Float x) = Inr (trunc_real x)"
| "py_int PosInf = Inl (OverflowError ''cannot convert float infinity to integer'')"
| "py_int NegInf = Inl (OverflowError ''cannot convert float infinity to integer'')"
| "py_int NaN = Inl (ValueError ''cannot convert float NaN to integer'')"

text \<open>
  The argument of \<^verbatim>\<open>Timer.start\<close> is checked with \<^verbatim>\<open>isinstance(_, int)\<close>, so the model
  keeps the dynamic type of the value that the caller passes.
\<close>

datatype pyval = PyInt int | PyFloat real | PyStr string

fun type_name :: "pyval \<Rightarrow> string" where
  "type_name (PyInt _) = ''int''"
| "type_name (PyFloat _) = ''float''"
| "type_name (PyStr _) = ''str''"

section \<open>The timer state machine (core/timer.py)\<close>

datatype TimerState = IDLE | RUNNING | PAUSED | EXPIRED

text \<open>The \<^verbatim>\<open>.value\<close> of each member of the enum.\<close>

fun state_value :: "TimerState \<Rightarrow> string" where
  "state_value IDLE = ''idle''"
| "state_value RUNNING = ''running''"
| "state_value PAUSED = ''paused''"
| "state_value EXPIRED = ''expired''"

definition VALID_START_STATES :: "TimerState set" where
  "VALID_START_STATES = {IDLE, EXPIRED}"

definition VALID_RESTART_STATES :: "TimerState set" where
  "VALID_RESTART_STATES = {RUNNING, PAUSED, EXPIRED}"

definition MIN_DURATION :: int where
  "MIN_DURATION = 1"

definition MAX_DURATION :: int where
  "MAX_DURATION = 60"

record timer =
  t_state :: TimerState
  t_duration_seconds :: real
  t_original_duration_minutes :: int
  t_start_time :: real
  t_remaining_at_pause :: real

text \<open>\<^verbatim>\<open>Timer.__init__\<close>\<close>

definition Timer_init :: timer where
  "Timer_init =
     \<lparr>t_state = IDLE, t_duration_seconds = 0, t_original_duration_minutes = 0,
      t_start_time = 0, t_remaining_at_pause = 0\<rparr>"

text \<open>\<^verbatim>\<open>Timer._require_state\<close>: the exception it raises, if any.\<close>

definition Timer_require_state :: "timer \<Rightarrow> string \<Rightarrow> TimerState set \<Rightarrow> error option" where
  "Timer_require_state t method valid =
     (if t_state t \<notin> valid
      then Some (InvalidStateError
                   (method @ ''() is not valid from '' @ state_value (t_state t) @ '' state''))
      else None)"

text \<open>\<^verbatim>\<open>Timer._begin_running\<close>; \<open>now\<close> is the reading of the monotonic clock.\<close>

definition Timer_begin_running :: "timer \<Rightarrow> real \<Rightarrow> timer" where
  "Timer_begin_running t now = t\<lparr>t_start_time := now, t_state := RUNNING\<rparr>"

text \<open>
  A method returns its outcome (the exception raised, or the value returned) together
  with the object as the call leaves it: an exception does not undo an earlier mutation.
\<close>

definition Timer_start :: "timer \<Rightarrow> pyval \<Rightarrow> real \<Rightarrow> (error + unit) \<times> timer" where
  "Timer_start t duration_minutes now =
     (case duration_minutes of
        PyInt n \<Rightarrow>
          if \<not> (MIN_DURATION \<le> n \<and> n \<le> MAX_DURATION)
          then (Inl (ValueError
                  (''duration_minutes must be between '' @ str_int MIN_DURATION @ '' and ''
                     @ str_int MAX_DURATION @ '', got '' @ str_int n)), t)
          else (case Timer_require_state t ''start'' VALID_START_STATES of
                  Some e \<Rightarrow> (Inl e, t)
                | None \<Rightarrow>
                    (Inr (),
                     Timer_begin_running
                       (t\<lparr>t_original_duration_minutes := n,
                          t_duration_seconds := real_of_int n * 60\<rparr>) now))
      | _ \<Rightarrow>
          (Inl (TypeError
             (''duration_minutes must be an integer, got '' @ type_name duration_minutes)), t))"

definition get_remaining :: "timer \<Rightarrow> real \<Rightarrow> real \<times> timer" where
  "get_remaining t now =
     (if t_state t = RUNNING
      then (let remaining = t_duration_seconds t - (now - t_start_time t)
            in if remaining \<le> 0
               then (0, t\<lparr>t_remaining_at_pause := 0, t_state := EXPIRED\<rparr>)
               else (remaining, t))
      else if t_state t = PAUSED then (t_remaining_at_pause t, t)
      else (0, t))"

text \<open>
  \<^verbatim>\<open>Timer.pause\<close> reads the monotonic clock twice: \<open>now1\<close> inside
  \<^verbatim>\<open>get_remaining\<close>, \<open>now2\<close> for the elapsed time.
\<close>

definition Timer_pause :: "timer \<Rightarrow> real \<Rightarrow> real \<Rightarrow> (error + unit) \<times> timer" where
  "Timer_pause t now1 now2 =
     (let t1 = snd (get_remaining t now1)
      in case Timer_require_state t1 ''pause'' {RUNNING} of
           Some e \<Rightarrow> (Inl e, t1)
         | None \<Rightarrow>
             (let elapsed = now2 - t_start_time t1
              in (Inr (),
                  t1\<lparr>t_remaining_at_pause := max (t_duration_seconds t1 - elapsed) 0,
                     t_state := PAUSED\<rparr>)))"

definition Timer_resume :: "timer \<Rightarrow> real \<Rightarrow> (error + unit) \<times> timer" where
  "Timer_resume t now =
     (case Timer_require_state t ''resume'' {PAUSED} of
        Some e \<Rightarrow> (Inl e, t)
      | None \<Rightarrow>
          (Inr (), Timer_begin_running (t\<lparr>t_duration_seconds := t_remaining_at_pause t\<rparr>) now))"

definition Timer_restart :: "timer \<Rightarrow> real \<Rightarrow> (error + unit) \<times> timer" where
  "Timer_restart t now =
     (case Timer_require_state t ''restart'' VALID_RESTART_STATES of
        Some e \<Rightarrow> (Inl e, t)
      | None \<Rightarrow>
          (Inr (),
           Timer_begin_running
             (t\<lparr>t_duration_seconds := real_of_int (t_original_duration_minutes t) * 60\<rparr>) now))"

definition get_state :: "timer \<Rightarrow> TimerState" where
  "get_state t = t_state t"

definition get_original_duration :: "timer \<Rightarrow> int" where
  "get_original_duration t = t_original_duration_minutes t"

section \<open>The session manager (core/session.py)\<close>

text \<open>
  The content of \<^verbatim>\<open>session.json\<close>: the dict that \<^verbatim>\<open>_save\<close> dumps and \<^verbatim>\<open>_load\<close> reads.
  \<^verbatim>\<open>_load\<close> reads each key with a default, so a key may be absent (\<open>None\<close>); a key
  that is present has a value of the type that \<^verbatim>\<open>_save\<close> writes for it (\<^verbatim>\<open>json\<close> writes
  and reads the infinities and NaN).
  \<^verbatim>\<open>json.dump\<close> is a function of this dict, so two equal dicts are the same bytes.
\<close>

record session_json =
  js_state :: "string option"
  js_duration_minutes :: "int option"
  js_remaining_seconds :: "pyfloat option"
  js_started_at :: "pyfloat option"

text \<open>
  The attributes of a \<^verbatim>\<open>Session\<close>, and with them the file under its \<^verbatim>\<open>_config_dir\<close>
  (\<open>None\<close>: the file does not exist), which is the only state outside the object that
  its methods read or write. \<^verbatim>\<open>_monotonic_ref\<close> is only ever 0.0 or a clock reading.
\<close>

record session =
  s_state :: TimerState
  s_duration_minutes :: int
  s_remaining_seconds :: pyfloat
  s_started_at :: pyfloat
  s_monotonic_ref :: real
  s_file :: "session_json option"

definition ACTIVE_STATES :: "TimerState set" where
  "ACTIVE_STATES = {RUNNING, PAUSED}"

text \<open>
  \<^verbatim>\<open>_format_remaining\<close>: \<open>format_total\<close> is its f-string, applied to the int that
  \<^verbatim>\<open>int(seconds)\<close> returns; an exception of \<^verbatim>\<open>int(seconds)\<close> leaves the function.
\<close>

definition format_total :: "int \<Rightarrow> string" where
  "format_total tot = str_int (tot div 60) @ '':'' @ format_02d (tot mod 60)"

definition format_remaining :: "pyfloat \<Rightarrow> error + string" where
  "format_remaining seconds =
     (case py_int seconds of
        Inl e \<Rightarrow> Inl e
      | Inr tot \<Rightarrow> Inr (format_total tot))"

text \<open>\<^verbatim>\<open>Session._save\<close>: the file is overwritten with the four attributes.\<close>

definition Session_save :: "session \<Rightarrow> session" where
  "Session_save s =
     s\<lparr>s_file := Some \<lparr>js_state = Some (state_value (s_state s)),
                        js_duration_minutes = Some (s_duration_minutes s),
                        js_remaining_seconds = Some (s_remaining_seconds s),
                        js_started_at = Some (s_started_at s)\<rparr>\<rparr>"

text \<open>
  \<^verbatim>\<open>Session._load\<close>; \<open>wall\<close> is \<^verbatim>\<open>time.time()\<close> and \<open>monot\<close> is \<^verbatim>\<open>time.monotonic()\<close>, both
  read in the branch of a running record only.
\<close>

definition Session_load :: "session \<Rightarrow> real \<Rightarrow> real \<Rightarrow> session" where
  "Session_load s wall monot =
     (case s_file s of
        None \<Rightarrow> s
      | Some data \<Rightarrow>
          (let s1 = s\<lparr>s_duration_minutes :=
                         (case js_duration_minutes data of None \<Rightarrow> 0 | Some v \<Rightarrow> v),
                       s_remaining_seconds :=
                         (case js_remaining_seconds data of None \<Rightarrow> Float 0 | Some v \<Rightarrow> v),
                       s_started_at :=
                         (case js_started_at data of None \<Rightarrow> Float 0 | Some v \<Rightarrow> v)\<rparr>;
               raw_state = (case js_state data of None \<Rightarrow> ''idle'' | Some v \<Rightarrow> v)
           in if raw_state = ''running''
              then (let elapsed = float_sub (Float wall) (s_started_at s1);
                        adjusted = float_sub (s_remaining_seconds s1) elapsed
                    in if float_le adjusted (Float 0)
                       then s1\<lparr>s_state := EXPIRED, s_remaining_seconds := Float 0\<rparr>
                       else s1\<lparr>s_state := RUNNING, s_remaining_seconds := adjusted,
                               s_monotonic_ref := monot\<rparr>)
              else if raw_state = ''paused'' then s1\<lparr>s_state := PAUSED\<rparr>
              else if raw_state = ''expired'' then s1\<lparr>s_state := EXPIRED\<rparr>
              else s1))"

text \<open>\<^verbatim>\<open>Session.__init__\<close> on a directory whose state file has the content \<open>file\<close>.\<close>

definition Session_init :: "session_json option \<Rightarrow> real \<Rightarrow> real \<Rightarrow> session" where
  "Session_init file wall monot =
     Session_load
       \<lparr>s_state = IDLE, s_duration_minutes = 0, s_remaining_seconds = Float 0,
        s_started_at = Float 0, s_monotonic_ref = 0, s_file = file\<rparr> wall monot"

definition Session_get_remaining :: "session \<Rightarrow> real \<Rightarrow> pyfloat" where
  "Session_get_remaining s monot =
     (if s_state s \<noteq> RUNNING then s_remaining_seconds s
      else (let elapsed = Float (monot - s_monotonic_ref s)
            in py_max (float_sub (s_remaining_seconds s) elapsed) (Float 0)))"

definition Session_effective_state :: "session \<Rightarrow> real \<Rightarrow> TimerState \<times> session" where
  "Session_effective_state s monot =
     (let s1 = (if s_state s = RUNNING \<and> float_le (Session_get_remaining s monot) (Float 0)
                then s\<lparr>s_state := EXPIRED\<rparr> else s)
      in (s_state s1, s1))"

definition Session_begin_running :: "session \<Rightarrow> real \<Rightarrow> real \<Rightarrow> session" where
  "Session_begin_running s wall monot =
     Session_save
       (s\<lparr>s_started_at := Float wall, s_monotonic_ref := monot, s_state := RUNNING\<rparr>)"

text \<open>
  \<^verbatim>\<open>Session.start\<close>: \<open>mono1\<close> is the reading inside \<^verbatim>\<open>_effective_state\<close>, \<open>wall\<close> and
  \<open>mono2\<close> are the two readings of \<^verbatim>\<open>_begin_running\<close>. The parameter is annotated
  \<^verbatim>\<open>int\<close> and the command line converts it with \<^verbatim>\<open>type=int\<close>. The minutes are assigned
  before the product with \<^verbatim>\<open>60.0\<close> is computed, so they stay assigned when the product
  raises.
\<close>

definition Session_start ::
  "session \<Rightarrow> int \<Rightarrow> real \<Rightarrow> real \<Rightarrow> real \<Rightarrow> (error + string) \<times> session" where
  "Session_start s duration_minutes mono1 wall mono2 =
     (let (st, s1) = Session_effective_state s mono1
      in if st \<in> ACTIVE_STATES
         then (Inl (InvalidStateError
                      (''start() is not valid from '' @ state_value (s_state s1) @ '' state'')),
               s1)
         else (let s2 = s1\<lparr>s_duration_minutes := duration_minutes\<rparr>
               in case int_times_float duration_minutes 60 of
                    Inl e \<Rightarrow> (Inl e, s2)
                  | Inr seconds \<Rightarrow>
                      (Inr (''Session started: '' @ str_int duration_minutes @ '' minutes''),
                       Session_begin_running (s2\<lparr>s_remaining_seconds := seconds\<rparr>) wall mono2)))"

text \<open>
  \<^verbatim>\<open>Session.status\<close>: the outcome is the exception that \<^verbatim>\<open>_format_remaining\<close> raises, or
  the message and the exit code; the object is as \<^verbatim>\<open>_effective_state\<close> left it in
  both cases.
\<close>

definition Session_status ::
  "session \<Rightarrow> real \<Rightarrow> real \<Rightarrow> (error + string \<times> int) \<times> session" where
  "Session_status s mono1 mono2 =
     (let (st, s1) = Session_effective_state s mono1
      in (if st = RUNNING
          then (case format_remaining (Session_get_remaining s1 mono2) of
                  Inl e \<Rightarrow> Inl e
                | Inr m \<Rightarrow> Inr (m @ '' remaining'', 0))
          else if st = PAUSED
          then (case format_remaining (s_remaining_seconds s1) of
                  Inl e \<Rightarrow> Inl e
                | Inr m \<Rightarrow> Inr (m @ '' remaining (paused)'', 0))
          else if st = EXPIRED then Inr (''Session expired'', 1)
          else Inr (''No active session'', 1),
          s1))"

text \<open>
  \<^verbatim>\<open>Session.pause\<close> and \<^verbatim>\<open>Session.resume\<close> format their message after they have saved,
  so the object and the file are the same whether the formatting raises or not.
\<close>

definition Session_pause :: "session \<Rightarrow> real \<Rightarrow> real \<Rightarrow> (error + string) \<times> session" where
  "Session_pause s monot wall =
     (let remaining = Session_get_remaining s monot;
          s1 = Session_save
                 (s\<lparr>s_remaining_seconds := remaining, s_state := PAUSED,
                    s_started_at := Float wall\<rparr>)
      in (case format_remaining remaining of
            Inl e \<Rightarrow> Inl e
          | Inr m \<Rightarrow> Inr (''Session paused at '' @ m @ '' remaining''),
          s1))"

definition Session_resume :: "session \<Rightarrow> real \<Rightarrow> real \<Rightarrow> (error + string) \<times> session" where
  "Session_resume s wall monot =
     (let s1 = Session_begin_running s wall monot
      in (case format_remaining (s_remaining_seconds s1) of
            Inl e \<Rightarrow> Inl e
          | Inr m \<Rightarrow> Inr (''Session resumed: '' @ m @ '' remaining''),
          s1))"

definition Session_restart :: "session \<Rightarrow> real \<Rightarrow> real \<Rightarrow> (error + string) \<times> session" where
  "Session_restart s wall monot =
     (case int_times_float (s_duration_minutes s) 60 of
        Inl e \<Rightarrow> (Inl e, s)
      | Inr seconds \<Rightarrow>
          (let s1 = Session_begin_running (s\<lparr>s_remaining_seconds := seconds\<rparr>) wall monot
           in (Inr (''Session restarted: '' @ str_int (s_duration_minutes s1) @ '' minutes''),
               s1)))"

section \<open>Sequences of calls on a timer\<close>

text \<open>
  The calls a client can make on a started timer other than \<^verbatim>\<open>start\<close> and
  \<^verbatim>\<open>restart\<close>, each with the clock readings it consumes. \<open>Timer_call\<close> gives the
  object after the call, whether the call returned or raised.
\<close>

datatype timer_call = CallPause real real | CallResume real | CallGetRemaining real

fun Timer_call :: "timer \<Rightarrow> timer_call \<Rightarrow> timer" where
  "Timer_call t (CallPause now1 now2) = snd (Timer_pause t now1 now2)"
| "Timer_call t (CallResume now) = snd (Timer_resume t now)"
| "Timer_call t (CallGetRemaining now) = snd (get_remaining t now)"

section \<open>Two invocations on one state file\<close>

text \<open>
  \<^verbatim>\<open>_save\<close> and \<^verbatim>\<open>_load\<close> as sequences of system calls, for one process that saves
  (\<open>Writer\<close>) and one that loads (\<open>Reader\<close>) on the same file. The state file is absent,
  empty, or holds a whole record. The calls, in the order of the source:

  \<^item> \<^verbatim>\<open>_save\<close>: \<^verbatim>\<open>open(path, "w")\<close> creates the file or truncates it to empty;
    \<^verbatim>\<open>fcntl.flock(f, LOCK_EX)\<close> waits until no other process holds a lock on the file;
    \<^verbatim>\<open>json.dump(data, f)\<close> fills the buffer of \<open>f\<close>; leaving the \<^verbatim>\<open>with\<close> block closes
    \<open>f\<close>, which writes the buffer to the file and then releases the lock.
  \<^item> \<^verbatim>\<open>_load\<close>: \<^verbatim>\<open>path.exists()\<close>; \<^verbatim>\<open>open(path)\<close>; \<^verbatim>\<open>fcntl.flock(f, LOCK_SH)\<close> waits until
    no other process holds the exclusive lock; \<^verbatim>\<open>json.load(f)\<close> reads the whole file and
    parses it, which raises \<open>JSONDecodeError\<close> on an empty file; leaving the \<^verbatim>\<open>with\<close>
    block releases the lock.

  A step of a process that has to wait is not enabled (\<open>None\<close>). \<^verbatim>\<open>mkdir\<close>, the first
  call of \<^verbatim>\<open>_save\<close>, does not touch the file and is left out; no call removes the file.
\<close>

datatype file_state = Absent | Empty | Whole session_json

datatype save_pc = Save_open | Save_flock | Save_dump | Save_close | Save_done

datatype load_pc = Load_exists | Load_open | Load_flock | Load_read | Load_close | Load_done

datatype load_result =
  Not_read | No_file | FileNotFoundError | JSONDecodeError | Loaded session_json

record system =
  sys_file :: file_state
  writer_holds_ex :: bool
  reader_holds_sh :: bool
  writer_pc :: save_pc
  reader_pc :: load_pc
  reader_result :: load_result

text \<open>One system call of \<^verbatim>\<open>_save\<close> writing the dict \<open>data\<close>.\<close>

fun Session_save_step :: "session_json \<Rightarrow> system \<Rightarrow> system option" where
  "Session_save_step data sys =
     (case writer_pc sys of
        Save_open \<Rightarrow> Some (sys\<lparr>sys_file := Empty, writer_pc := Save_flock\<rparr>)
      | Save_flock \<Rightarrow>
          if reader_holds_sh sys then None
          else Some (sys\<lparr>writer_holds_ex := True, writer_pc := Save_dump\<rparr>)
      | Save_dump \<Rightarrow> Some (sys\<lparr>writer_pc := Save_close\<rparr>)
      | Save_close \<Rightarrow>
          Some (sys\<lparr>sys_file := Whole data, writer_holds_ex := False, writer_pc := Save_done\<rparr>)
      | Save_done \<Rightarrow> None)"

text \<open>One system call of \<^verbatim>\<open>_load\<close>.\<close>

fun Session_load_step :: "system \<Rightarrow> system option" where
  "Session_load_step sys =
     (case reader_pc sys of
        Load_exists \<Rightarrow>
          if sys_file sys = Absent
          then Some (sys\<lparr>reader_result := No_file, reader_pc := Load_done\<rparr>)
          else Some (sys\<lparr>reader_pc := Load_open\<rparr>)
      | Load_open \<Rightarrow>
          if sys_file sys = Absent
          then Some (sys\<lparr>reader_result := FileNotFoundError, reader_pc := Load_done\<rparr>)
          else Some (sys\<lparr>reader_pc := Load_flock\<rparr>)
      | Load_flock \<Rightarrow>
          if writer_holds_ex sys then None
          else Some (sys\<lparr>reader_holds_sh := True, reader_pc := Load_read\<rparr>)
      | Load_read \<Rightarrow>
          Some (sys\<lparr>reader_result :=
                       (case sys_file sys of
                          Whole d \<Rightarrow> Loaded d
                        | Empty \<Rightarrow> JSONDecodeError
                        | Absent \<Rightarrow> JSONDecodeError),
                     reader_pc := Load_close\<rparr>)
      | Load_close \<Rightarrow> Some (sys\<lparr>reader_holds_sh := False, reader_pc := Load_done\<rparr>)
      | Load_done \<Rightarrow> None)"

text \<open>
  A schedule names the process that makes the next call; it is run from a state in which
  neither process has started, and fails (\<open>None\<close>) when it names a process that cannot
  move.
\<close>

datatype process = Writer | Reader

fun run :: "session_json \<Rightarrow> system \<Rightarrow> process list \<Rightarrow> system option" where
  "run data sys [] = Some sys"
| "run data sys (Writer # ps) =
     (case Session_save_step data sys of None \<Rightarrow> None | Some sys' \<Rightarrow> run data sys' ps)"
| "run data sys (Reader # ps) =
     (case Session_load_step sys of None \<Rightarrow> None | Some sys' \<Rightarrow> run data sys' ps)"

definition initial :: "file_state \<Rightarrow> system" where
  "initial f =
     \<lparr>sys_file = f, writer_holds_ex = False, reader_holds_sh = False,
      writer_pc = Save_open, reader_pc = Load_exists, reader_result = Not_read\<rparr>"

section \<open>Unfolding rules and facts about the formatting\<close>

lemmas timer_defs = Timer_require_state_def Timer_begin_running_def Timer_start_def
  get_remaining_def Timer_pause_def Timer_resume_def Timer_restart_def
  VALID_START_STATES_def VALID_RESTART_STATES_def MIN_DURATION_def MAX_DURATION_def

lemmas session_defs = Session_save_def Session_load_def Session_init_def
  Session_get_remaining_def Session_effective_state_def Session_begin_running_def
  Session_start_def Session_status_def Session_pause_def Session_resume_def
  Session_restart_def ACTIVE_STATES_def py_max_def format_remaining_def

lemmas fmt_defs = format_total_def format_02d_def str_int_def trunc_real_def str_nat.simps
  digit_char_def

lemma digit_char_0: "digit_char 0 = CHR ''0''"
  by (simp add: digit_char_def)

lemma str_nat_one_digit: "n < 10 \<Longrightarrow> str_nat n = [digit_char n]"
  by (simp add: str_nat.simps)

lemma str_nat_two_digits:
  "10 \<le> n \<Longrightarrow> n < 100 \<Longrightarrow> str_nat n = [digit_char (n div 10), digit_char (n mod 10)]"
  by (subst str_nat.simps) (simp add: str_nat_one_digit)

lemma format_02d_two_chars:
  assumes "0 \<le> k" "k < 100"
  shows "format_02d k = [digit_char (nat k div 10), digit_char (nat k mod 10)]"
proof (cases "k < 10")
  case True
  with assms show ?thesis
    by (simp add: format_02d_def str_int_def str_nat_one_digit digit_char_0)
next
  case False
  with assms show ?thesis
    by (simp add: format_02d_def str_int_def str_nat_two_digits)
qed

text \<open>
  On a finite float \<^verbatim>\<open>_format_remaining\<close> returns the text of the truncated seconds; on
  an infinity and on NaN it raises.
\<close>

lemma format_remaining_Float:
  "format_remaining (Float x) = Inr (format_total (trunc_real x))"
  by (simp add: format_remaining_def)

lemma format_remaining_not_finite:
  "format_remaining PosInf = Inl (OverflowError ''cannot convert float infinity to integer'') \<and>
   format_remaining NegInf = Inl (OverflowError ''cannot convert float infinity to integer'') \<and>
   format_remaining NaN = Inl (ValueError ''cannot convert float NaN to integer'')"
  by (simp add: format_remaining_def)

text \<open>
  For a non-negative number of seconds the text is the minutes in decimal, a colon, and
  exactly two digits of seconds.
\<close>

lemma format_remaining_shape:
  assumes "0 \<le> x"
  shows "format_total (trunc_real x) =
           str_nat (nat \<lfloor>x\<rfloor> div 60) @ '':'' @
           [digit_char (nat \<lfloor>x\<rfloor> mod 60 div 10), digit_char (nat \<lfloor>x\<rfloor> mod 60 mod 10)]"
proof -
  have f: "0 \<le> \<lfloor>x\<rfloor>" using assms by simp
  have m: "0 \<le> \<lfloor>x\<rfloor> mod 60" "\<lfloor>x\<rfloor> mod 60 < 100" by simp_all
  have d: "0 \<le> \<lfloor>x\<rfloor> div 60" using f by (simp add: pos_imp_zdiv_nonneg_iff)
  have n1: "nat (\<lfloor>x\<rfloor> mod 60) = nat \<lfloor>x\<rfloor> mod 60" using f by (simp add: nat_mod_distrib)
  have n2: "nat (\<lfloor>x\<rfloor> div 60) = nat \<lfloor>x\<rfloor> div 60" using f by (simp add: nat_div_distrib)
  show ?thesis
    using assms d
    by (simp add: format_total_def trunc_real_def format_02d_two_chars [OF m] n1 n2 str_int_def)
qed

section \<open>The product of the minutes with 60.0\<close>

lemma FLOAT_OVERFLOW_large: "10 ^ 300 < FLOAT_OVERFLOW"
  by (simp add: FLOAT_OVERFLOW_def)

text \<open>Up to a thousand million minutes the product is exact.\<close>

lemma int_times_float_60:
  assumes "\<bar>n\<bar> \<le> 10 ^ 9"
  shows "int_times_float n 60 = Inr (Float (real_of_int n * 60))"
proof -
  have a: "\<bar>real_of_int n\<bar> \<le> 10 ^ 9"
    using assms by (metis of_int_abs of_int_le_iff of_int_numeral of_int_power)
  have b: "(10::real) ^ 9 * 60 < 10 ^ 300" by simp
  have c: "\<bar>real_of_int n * 60\<bar> < FLOAT_OVERFLOW"
    using a b FLOAT_OVERFLOW_large by (simp add: abs_mult)
  have d: "\<bar>real_of_int n\<bar> < FLOAT_OVERFLOW"
    using a FLOAT_OVERFLOW_large by simp
  show ?thesis
    using c d by (simp add: int_times_float_def float_of_real_def abs_if split: if_splits)
qed

text \<open>
  \<^verbatim>\<open>10**307 * 60.0\<close> is \<^verbatim>\<open>inf\<close>, and \<^verbatim>\<open>10**309 * 60.0\<close> raises.
\<close>

lemma int_times_float_overflow:
  "int_times_float (10 ^ 307) 60 = Inr PosInf \<and>
   int_times_float (10 ^ 309) 60 = Inl (OverflowError ''int too large to convert to float'')"
  by (simp add: int_times_float_def float_of_real_def FLOAT_OVERFLOW_def)

section \<open>Single transitions of the timer and of the session\<close>

lemma Timer_start_ok:
  assumes "Timer_start t d now = (Inr (), t')"
  shows "\<exists>n. d = PyInt n \<and> 1 \<le> n \<and> n \<le> 60 \<and>
             t_original_duration_minutes t' = n \<and> t_state t' = RUNNING"
  using assms by (cases d) (auto simp: timer_defs split: if_splits)

lemma Timer_pause_running:
  assumes "t_state t = RUNNING" and "now1 - t_start_time t < t_duration_seconds t"
  shows "Timer_pause t now1 now2 =
           (Inr (),
            t\<lparr>t_remaining_at_pause := max (t_duration_seconds t - (now2 - t_start_time t)) 0,
              t_state := PAUSED\<rparr>)"
  using assms by (simp add: Timer_pause_def get_remaining_def Timer_require_state_def Let_def)

lemma Timer_resume_paused:
  assumes "t_state t = PAUSED"
  shows "Timer_resume t now =
           (Inr (), t\<lparr>t_duration_seconds := t_remaining_at_pause t, t_start_time := now,
                      t_state := RUNNING\<rparr>)"
  using assms by (simp add: Timer_resume_def Timer_require_state_def Timer_begin_running_def)

lemma Timer_restart_ok:
  assumes "t_state t \<in> {RUNNING, PAUSED, EXPIRED}"
  shows "Timer_restart t now =
           (Inr (), t\<lparr>t_duration_seconds := real_of_int (t_original_duration_minutes t) * 60,
                      t_start_time := now, t_state := RUNNING\<rparr>)"
  using assms
  by (auto simp: Timer_restart_def Timer_require_state_def Timer_begin_running_def
      VALID_RESTART_STATES_def)

lemma get_remaining_at_anchor:
  assumes "t_state t = RUNNING" and "t_start_time t = now"
  shows "fst (get_remaining t now) = max (t_duration_seconds t) 0"
    and "0 < t_duration_seconds t \<Longrightarrow> get_remaining t now = (t_duration_seconds t, t)"
  using assms by (simp_all add: get_remaining_def Let_def max_def)

lemma Session_restart_eq:
  assumes "int_times_float (s_duration_minutes s) 60 = Inr seconds"
  shows "Session_restart s wall monot =
     (Inr (''Session restarted: '' @ str_int (s_duration_minutes s) @ '' minutes''),
      s\<lparr>s_remaining_seconds := seconds,
        s_started_at := Float wall, s_monotonic_ref := monot, s_state := RUNNING,
        s_file := Some \<lparr>js_state = Some ''running'',
                         js_duration_minutes = Some (s_duration_minutes s),
                         js_remaining_seconds = Some seconds,
                         js_started_at = Some (Float wall)\<rparr>\<rparr>)"
  using assms
  by (simp add: Session_restart_def Session_begin_running_def Session_save_def Let_def)

text \<open>The two objects the examples below start from.\<close>

lemma Timer_started_25:
  "snd (Timer_start Timer_init (PyInt 25) 0) =
     \<lparr>t_state = RUNNING, t_duration_seconds = 1500, t_original_duration_minutes = 25,
      t_start_time = 0, t_remaining_at_pause = 0\<rparr>"
  by (simp add: timer_defs Timer_init_def)

lemma Session_started_10:
  "snd (Session_start (Session_init None 1000000 0) 10 0 1000000 0) =
     \<lparr>s_state = RUNNING, s_duration_minutes = 10, s_remaining_seconds = Float 600,
      s_started_at = Float 1000000, s_monotonic_ref = 0,
      s_file = Some \<lparr>js_state = Some ''running'', js_duration_minutes = Some 10,
                      js_remaining_seconds = Some (Float 600),
                      js_started_at = Some (Float 1000000)\<rparr>\<rparr>"
  by (simp add: session_defs int_times_float_60 Let_def)

section \<open>Operations outside their guard set\<close>

text \<open>
  The timer guards all four operations: from a state outside the guard set the call
  raises \<open>InvalidStateError\<close> with the name of the operation and of the state, and the
  timer is as it was.
\<close>

lemma Timer_rejects_outside_guard:
  "(t_state t \<notin> {IDLE, EXPIRED} \<and> 1 \<le> n \<and> n \<le> 60 \<longrightarrow>
      Timer_start t (PyInt n) now =
        (Inl (InvalidStateError
                (''start() is not valid from '' @ state_value (t_state t) @ '' state'')), t)) \<and>
   (t_state t \<noteq> RUNNING \<longrightarrow>
      Timer_pause t now1 now2 =
        (Inl (InvalidStateError
                (''pause() is not valid from '' @ state_value (t_state t) @ '' state'')), t)) \<and>
   (t_state t \<noteq> PAUSED \<longrightarrow>
      Timer_resume t now =
        (Inl (InvalidStateError
                (''resume() is not valid from '' @ state_value (t_state t) @ '' state'')), t)) \<and>
   (t_state t \<notin> {RUNNING, PAUSED, EXPIRED} \<longrightarrow>
      Timer_restart t now =
        (Inl (InvalidStateError
                (''restart() is not valid from '' @ state_value (t_state t) @ '' state'')), t))"
  by (simp add: timer_defs Let_def)

lemma Timer_pause_idle_example:
  "Timer_pause Timer_init 0 0 =
     (Inl (InvalidStateError ''pause() is not valid from idle state''), Timer_init)"
  by (simp add: timer_defs Timer_init_def)

text \<open>
  The session guards \<^verbatim>\<open>start\<close>: from a paused session, or a running one with time
  left, it raises and changes nothing.
\<close>

lemma Session_start_rejects_active:
  assumes "s_state s = PAUSED \<or>
           (s_state s = RUNNING \<and> \<not> float_le (Session_get_remaining s mono1) (Float 0))"
  shows "Session_start s n mono1 wall mono2 =
           (Inl (InvalidStateError
                   (''start() is not valid from '' @ state_value (s_state s) @ '' state'')), s)"
  using assms
  by (auto simp: Session_start_def Session_effective_state_def ACTIVE_STATES_def Let_def)

text \<open>
  \<^verbatim>\<open>Session.pause\<close> and \<^verbatim>\<open>Session.resume\<close> have no path that raises
  \<open>InvalidStateError\<close>: in every state they set the state and write the file, and with a
  finite remaining time they return their message. \<^verbatim>\<open>Session.restart\<close> does the same
  whenever the product of its minutes with 60.0 can be computed.
\<close>

lemma Session_pause_resume_restart_never_raise:
  "s_state (snd (Session_pause s monot wall)) = PAUSED \<and>
   s_file (snd (Session_pause s monot wall)) \<noteq> None \<and>
   (Session_get_remaining s monot = Float x \<longrightarrow>
      fst (Session_pause s monot wall) =
        Inr (''Session paused at '' @ format_total (trunc_real x) @ '' remaining'')) \<and>
   s_state (snd (Session_resume s wall monot)) = RUNNING \<and>
   s_file (snd (Session_resume s wall monot)) \<noteq> None \<and>
   (s_remaining_seconds s = Float y \<longrightarrow>
      fst (Session_resume s wall monot) =
        Inr (''Session resumed: '' @ format_total (trunc_real y) @ '' remaining'')) \<and>
   (\<bar>s_duration_minutes s\<bar> \<le> 10 ^ 9 \<longrightarrow>
      fst (Session_restart s wall monot) =
        Inr (''Session restarted: '' @ str_int (s_duration_minutes s) @ '' minutes'') \<and>
      s_state (snd (Session_restart s wall monot)) = RUNNING \<and>
      s_file (snd (Session_restart s wall monot)) \<noteq> None)"
  by (simp add: Session_pause_def Session_resume_def Session_restart_eq [OF int_times_float_60]
      Session_begin_running_def Session_save_def format_remaining_Float Let_def)

text \<open>
  C1. The specification: an operation invoked on the session from a state outside its
  guard set raises \<open>InvalidTransition\<close> with the operation and the state, and leaves the
  persisted record unchanged. \<^verbatim>\<open>Session.pause\<close>, \<^verbatim>\<open>Session.resume\<close> and
  \<^verbatim>\<open>Session.restart\<close> do not check the state. On a fresh session (no state file, state
  Idle, outside the guard set of all three) each of them returns its success message,
  leaves the Idle state and creates the state file.
\<close>

theorem Session_operations_unguarded:
  "(let s0 = Session_init None 1000000 0
    in s_state s0 = IDLE \<and> s_file s0 = None \<and>
       Session_pause s0 0 1000000 =
         (Inr ''Session paused at 0:00 remaining'',
          s0\<lparr>s_state := PAUSED, s_started_at := Float 1000000,
             s_file := Some \<lparr>js_state = Some ''paused'', js_duration_minutes = Some 0,
                              js_remaining_seconds = Some (Float 0),
                              js_started_at = Some (Float 1000000)\<rparr>\<rparr>) \<and>
       Session_resume s0 1000000 0 =
         (Inr ''Session resumed: 0:00 remaining'',
          s0\<lparr>s_state := RUNNING, s_started_at := Float 1000000,
             s_file := Some \<lparr>js_state = Some ''running'', js_duration_minutes = Some 0,
                              js_remaining_seconds = Some (Float 0),
                              js_started_at = Some (Float 1000000)\<rparr>\<rparr>) \<and>
       Session_restart s0 1000000 0 =
         (Inr ''Session restarted: 0 minutes'',
          s0\<lparr>s_state := RUNNING, s_started_at := Float 1000000,
             s_file := Some \<lparr>js_state = Some ''running'', js_duration_minutes = Some 0,
                              js_remaining_seconds = Some (Float 0),
                              js_started_at = Some (Float 1000000)\<rparr>\<rparr>))"
  by (simp add: Let_def session_defs fmt_defs int_times_float_60)

section \<open>Starting with an invalid duration\<close>

text \<open>
  The timer rejects every argument that is not an int between 1 and 60, in every state
  and before it looks at the state, with \<open>TypeError\<close> or \<open>ValueError\<close> (never
  \<open>InvalidStateError\<close>), and the timer is as it was.
\<close>

lemma Timer_start_invalid_duration:
  assumes "\<forall>n. duration_minutes = PyInt n \<longrightarrow> n < 1 \<or> 60 < n"
  shows "\<exists>msg. Timer_start t duration_minutes now = (Inl (TypeError msg), t) \<or>
               Timer_start t duration_minutes now = (Inl (ValueError msg), t)"
  using assms by (cases duration_minutes) (auto simp: timer_defs)

lemma Timer_start_invalid_examples:
  "Timer_start Timer_init (PyInt 61) 0 =
     (Inl (ValueError ''duration_minutes must be between 1 and 60, got 61''), Timer_init) \<and>
   Timer_start Timer_init (PyInt 0) 0 =
     (Inl (ValueError ''duration_minutes must be between 1 and 60, got 0''), Timer_init) \<and>
   Timer_start Timer_init (PyFloat (51 / 2)) 0 =
     (Inl (TypeError ''duration_minutes must be an integer, got float''), Timer_init)"
  by (simp add: timer_defs fmt_defs)

text \<open>
  \<^verbatim>\<open>Session.start\<close> accepts every integer from Idle and from Expired: it returns its
  message and writes the record, with an infinite remaining time when the product
  with 60.0 overflows; an int beyond the range of the doubles makes the product raise
  \<open>OverflowError\<close>, after the minutes have been assigned and before anything is saved.
\<close>

lemma Session_start_accepts_any_duration:
  assumes "s_state s = IDLE \<or> s_state s = EXPIRED"
  shows "(\<forall>seconds. int_times_float n 60 = Inr seconds \<longrightarrow>
            fst (Session_start s n mono1 wall mono2) =
              Inr (''Session started: '' @ str_int n @ '' minutes'') \<and>
            s_file (snd (Session_start s n mono1 wall mono2)) =
              Some \<lparr>js_state = Some ''running'', js_duration_minutes = Some n,
                    js_remaining_seconds = Some seconds, js_started_at = Some (Float wall)\<rparr>) \<and>
         (\<forall>e. int_times_float n 60 = Inl e \<longrightarrow>
            Session_start s n mono1 wall mono2 = (Inl e, s\<lparr>s_duration_minutes := n\<rparr>))"
  using assms
  by (auto simp: Session_start_def Session_effective_state_def ACTIVE_STATES_def
      Session_begin_running_def Session_save_def Let_def)

text \<open>
  C2. The specification: \<open>Start\<close> with minutes outside 1..60 fails with
  \<open>InvalidDuration\<close> from Idle and from Expired, and the in-memory and the persisted
  state stay untouched. \<^verbatim>\<open>Session.start\<close> does not check the duration. From a fresh
  (Idle) session, \<^verbatim>\<open>start(61)\<close> returns its success message and writes a running record
  of 61 minutes; from a session loaded as Expired, \<^verbatim>\<open>start(0)\<close> does the same with 0
  minutes and overwrites the record.
\<close>

theorem Session_start_unvalidated:
  "(let s0 = Session_init None 1000000 0
    in s_state s0 = IDLE \<and>
       Session_start s0 61 0 1000000 0 =
         (Inr ''Session started: 61 minutes'',
          \<lparr>s_state = RUNNING, s_duration_minutes = 61, s_remaining_seconds = Float 3660,
           s_started_at = Float 1000000, s_monotonic_ref = 0,
           s_file = Some \<lparr>js_state = Some ''running'', js_duration_minutes = Some 61,
                           js_remaining_seconds = Some (Float 3660),
                           js_started_at = Some (Float 1000000)\<rparr>\<rparr>)) \<and>
   (let old = \<lparr>js_state = Some ''expired'', js_duration_minutes = Some 10,
               js_remaining_seconds = Some (Float 0), js_started_at = Some (Float 1000000)\<rparr>;
        s1 = Session_init (Some old) 2000000 0
    in s_state s1 = EXPIRED \<and> s_file s1 = Some old \<and>
       Session_start s1 0 0 2000000 0 =
         (Inr ''Session started: 0 minutes'',
          \<lparr>s_state = RUNNING, s_duration_minutes = 0, s_remaining_seconds = Float 0,
           s_started_at = Float 2000000, s_monotonic_ref = 0,
           s_file = Some \<lparr>js_state = Some ''running'', js_duration_minutes = Some 0,
                           js_remaining_seconds = Some (Float 0),
                           js_started_at = Some (Float 2000000)\<rparr>\<rparr>))"
  by (simp add: Let_def session_defs fmt_defs int_times_float_60)

section \<open>Reloading a running record\<close>

text \<open>
  C3. A record with state \<open>running\<close>, stored remaining seconds \<open>r\<close> and start stamp
  \<open>started_at\<close> is loaded when the wall clock reads \<open>wall\<close>, so the gap is
  \<open>g = wall - started_at\<close>. If \<open>g < r\<close> the session is Running, its remaining time is
  \<open>r - g\<close>, anchored to the monotonic reading taken by the load (after \<open>d\<close> more
  monotonic seconds the remaining time is \<open>r - g - d\<close>, never below zero). If
  \<open>r \<le> g\<close> the session is Expired and its remaining time is 0.
\<close>

theorem load_running_record:
  fixes r started_at wall monot :: real
  shows "(let s' = Session_init (Some \<lparr>js_state = Some ''running'', js_duration_minutes = dm,
                       js_remaining_seconds = Some (Float r),
                       js_started_at = Some (Float started_at)\<rparr>) wall monot;
              g = wall - started_at
          in (g < r \<longrightarrow> s_state s' = RUNNING \<and> s_remaining_seconds s' = Float (r - g) \<and>
                   s_monotonic_ref s' = monot \<and>
                   Session_get_remaining s' monot = Float (r - g) \<and>
                   fst (Session_effective_state s' monot) = RUNNING \<and>
                   (\<forall>d\<ge>0. Session_get_remaining s' (monot + d) = Float (max (r - g - d) 0))) \<and>
             (r \<le> g \<longrightarrow> s_state s' = EXPIRED \<and> s_remaining_seconds s' = Float 0 \<and>
                   (\<forall>m. Session_get_remaining s' m = Float 0) \<and>
                   (\<forall>m. fst (Session_effective_state s' m) = EXPIRED)))"
  by (auto simp: Session_init_def Session_load_def Session_get_remaining_def
      Session_effective_state_def py_max_def Let_def)

text \<open>
  The two records of the test suite: 600 s stored and a gap of 100 s give a running
  session with 500 s (\<open>8:20\<close>), and 400 s after 100 more monotonic seconds; 60 s stored
  and a gap of 120 s give an expired one.
\<close>

theorem load_running_record_witness:
  "(let s' = Session_init (Some \<lparr>js_state = Some ''running'', js_duration_minutes = Some 10,
                       js_remaining_seconds = Some (Float 600),
                       js_started_at = Some (Float 1000000)\<rparr>) 1000100 5000
    in (1000100 - 1000000 < (600::real)) \<and> s_state s' = RUNNING \<and>
       s_remaining_seconds s' = Float 500 \<and>
       Session_get_remaining s' (5000 + 100) = Float 400 \<and>
       fst (Session_status s' 5000 5000) = Inr (''8:20 remaining'', 0)) \<and>
   (let s' = Session_init (Some \<lparr>js_state = Some ''running'', js_duration_minutes = Some 10,
                       js_remaining_seconds = Some (Float 60),
                       js_started_at = Some (Float 1000000)\<rparr>) 1000120 5000
    in ((60::real) \<le> 1000120 - 1000000) \<and> s_state s' = EXPIRED \<and>
       s_remaining_seconds s' = Float 0 \<and>
       fst (Session_status s' 5000 5000) = Inr (''Session expired'', 1))"
  using load_running_record [where wall = 1000100 and started_at = 1000000 and r = 600
                             and dm = "Some 10" and monot = 5000]
        load_running_record [where wall = 1000120 and started_at = 1000000 and r = 60
                             and dm = "Some 10" and monot = 5000]
  by (simp add: Let_def session_defs fmt_defs)

section \<open>Pausing a countdown that has run out\<close>

text \<open>
  The timer queries the remaining time before it checks the state: a running timer
  whose time has run out becomes Expired inside \<^verbatim>\<open>pause\<close>, and the error names that
  state.
\<close>

lemma Timer_pause_after_expiry:
  assumes "t_state t = RUNNING" and "t_duration_seconds t \<le> now1 - t_start_time t"
  shows "Timer_pause t now1 now2 =
           (Inl (InvalidStateError ''pause() is not valid from expired state''),
            t\<lparr>t_remaining_at_pause := 0, t_state := EXPIRED\<rparr>)"
  using assms by (simp add: timer_defs Let_def)

lemma Timer_pause_after_expiry_example:
  "fst (Timer_pause (snd (Timer_start Timer_init (PyInt 1) 0)) 61 61) =
     Inl (InvalidStateError ''pause() is not valid from expired state'')"
  by (simp add: timer_defs Timer_init_def)

text \<open>
  C4. The specification: \<open>Pause\<close> on a running countdown whose elapsed time has reached
  the run duration raises \<open>InvalidTransition\<close> naming the expired state, rather than
  succeeding. \<^verbatim>\<open>Session.pause\<close> has neither the expiration check nor the guard. A
  session started for 1 minute at monotonic time 0 and paused at monotonic time 61 is
  still Running in memory; the call returns its success message and writes a paused
  record with 0 seconds.
\<close>

theorem Session_pause_after_expiry:
  "(let s1 = snd (Session_start (Session_init None 1000000 0) 1 0 1000000 0)
    in s_state s1 = RUNNING \<and> s_remaining_seconds s1 = Float 60 \<and> s_monotonic_ref s1 = 0 \<and>
       Session_pause s1 61 1000061 =
         (Inr ''Session paused at 0:00 remaining'',
          \<lparr>s_state = PAUSED, s_duration_minutes = 1, s_remaining_seconds = Float 0,
           s_started_at = Float 1000061, s_monotonic_ref = 0,
           s_file = Some \<lparr>js_state = Some ''paused'', js_duration_minutes = Some 1,
                           js_remaining_seconds = Some (Float 0),
                           js_started_at = Some (Float 1000061)\<rparr>\<rparr>))"
  by (simp add: Let_def session_defs fmt_defs int_times_float_60)

section \<open>Pause followed by resume\<close>

lemma Timer_pause_resume:
  assumes "t_state t = RUNNING" and "fst (get_remaining t now1) = v" and "0 < v"
    and "now1 \<le> now2"
  shows "(let (r1, t1) = Timer_pause t now1 now2;
              (r2, t2) = Timer_resume t1 later
          in r1 = Inr () \<and> r2 = Inr () \<and> t_state t1 = PAUSED \<and> t_state t2 = RUNNING \<and>
             fst (get_remaining t2 later) = max (v - (now2 - now1)) 0 \<and>
             (now2 = now1 \<longrightarrow> get_remaining t2 later = (v, t2)))"
proof -
  have v: "v = t_duration_seconds t - (now1 - t_start_time t)"
    using assms(1-3) by (simp add: get_remaining_def Let_def split: if_splits)
  hence pos: "now1 - t_start_time t < t_duration_seconds t" using assms(3) by simp
  have eq: "t_duration_seconds t - (now2 - t_start_time t) = v - (now2 - now1)"
    using v by simp
  show ?thesis
    unfolding Timer_pause_running [OF assms(1) pos]
    using assms(3)
    by (simp add: Timer_resume_paused get_remaining_at_anchor eq get_remaining_def Let_def)
qed

lemma Session_pause_resume:
  assumes "s_state s = RUNNING" and "Session_get_remaining s monot = Float u" and "0 < u"
  shows "(let (r1, s1) = Session_pause s monot wall;
              (r2, s2) = Session_resume s1 wall2 mono2;
              (r3, s3) = Session_resume (Session_init (s_file s1) wall3 mono3) wall4 mono4
          in r1 = Inr (''Session paused at '' @ format_total (trunc_real u) @ '' remaining'') \<and>
             r2 = Inr (''Session resumed: '' @ format_total (trunc_real u) @ '' remaining'') \<and>
             r3 = r2 \<and>
             s_state s1 = PAUSED \<and> s_state s2 = RUNNING \<and> s_state s3 = RUNNING \<and>
             Session_get_remaining s2 mono2 = Float u \<and>
             Session_get_remaining s3 mono4 = Float u)"
proof -
  have p: "Session_pause s monot wall =
             (Inr (''Session paused at '' @ format_total (trunc_real u) @ '' remaining''),
              Session_save (s\<lparr>s_remaining_seconds := Float u, s_state := PAUSED,
                              s_started_at := Float wall\<rparr>))"
    using assms(2) by (simp add: Session_pause_def format_remaining_Float Let_def)
  show ?thesis
    unfolding p using assms(3)
    by (simp add: Session_resume_def Session_begin_running_def Session_save_def Session_init_def
        Session_load_def Session_get_remaining_def py_max_def format_remaining_Float Let_def)
qed

text \<open>
  C5. A countdown is Running with remaining time \<open>v > 0\<close>. After \<open>Pause\<close> and then
  \<open>Resume\<close>, whatever the clocks read at the resume, the remaining time read at the
  resume is \<open>v\<close> again. For the timer, whose \<^verbatim>\<open>pause\<close> reads the clock twice (\<open>now1\<close>,
  then \<open>now2\<close>), the remaining time is \<open>v\<close> less the time between the two readings, and
  exactly \<open>v\<close> when they agree. For the session (remaining time \<open>u > 0\<close>) it is exactly
  \<open>u\<close>, both when the same object resumes and when a later process loads the paused
  record and resumes it.
\<close>

theorem pause_resume_keeps_remaining:
  "(t_state t = RUNNING \<and> fst (get_remaining t now1) = v \<and> 0 < v \<and> now1 \<le> now2 \<longrightarrow>
      (let (r1, t1) = Timer_pause t now1 now2;
           (r2, t2) = Timer_resume t1 later
       in r1 = Inr () \<and> r2 = Inr () \<and> t_state t1 = PAUSED \<and> t_state t2 = RUNNING \<and>
          fst (get_remaining t2 later) = max (v - (now2 - now1)) 0 \<and>
          (now2 = now1 \<longrightarrow> get_remaining t2 later = (v, t2)))) \<and>
   (s_state s = RUNNING \<and> Session_get_remaining s monot = Float u \<and> 0 < u \<longrightarrow>
      (let (r1, s1) = Session_pause s monot wall;
           (r2, s2) = Session_resume s1 wall2 mono2;
           (r3, s3) = Session_resume (Session_init (s_file s1) wall3 mono3) wall4 mono4
       in r1 = Inr (''Session paused at '' @ format_total (trunc_real u) @ '' remaining'') \<and>
          r2 = Inr (''Session resumed: '' @ format_total (trunc_real u) @ '' remaining'') \<and>
          r3 = r2 \<and>
          s_state s1 = PAUSED \<and> s_state s2 = RUNNING \<and> s_state s3 = RUNNING \<and>
          Session_get_remaining s2 mono2 = Float u \<and>
          Session_get_remaining s3 mono4 = Float u))"
  using Timer_pause_resume [of t now1 v now2 later]
        Session_pause_resume [of s monot u wall wall2 mono2 wall3 mono3 wall4 mono4]
  by blast

text \<open>
  A timer started for 25 minutes, paused after 10 s and resumed at 50 s has 1490 s; the
  session of the specification's scenario (10 minutes, paused after 146 s, resumed
  later) has 454 s, shown as \<open>7:34\<close>.
\<close>

theorem pause_resume_keeps_remaining_witness:
  "(let t = snd (Timer_start Timer_init (PyInt 25) 0);
        s = snd (Session_start (Session_init None 1000000 0) 10 0 1000000 0)
    in t_state t = RUNNING \<and> fst (get_remaining t 10) = 1490 \<and>
       fst (get_remaining (snd (Timer_resume (snd (Timer_pause t 10 10)) 50)) 50) = 1490 \<and>
       s_state s = RUNNING \<and> Session_get_remaining s 146 = Float 454 \<and>
       fst (Session_pause s 146 1000146) = Inr ''Session paused at 7:34 remaining'' \<and>
       fst (Session_resume (snd (Session_pause s 146 1000146)) 1000200 200) =
          Inr ''Session resumed: 7:34 remaining'' \<and>
       Session_get_remaining
         (snd (Session_resume (snd (Session_pause s 146 1000146)) 1000200 200)) 200 =
          Float 454)"
proof -
  have ft: "format_total (trunc_real 454) = ''7:34''" by (simp add: fmt_defs)
  have a: "t_state (snd (Timer_start Timer_init (PyInt 25) 0)) = RUNNING \<and>
           fst (get_remaining (snd (Timer_start Timer_init (PyInt 25) 0)) 10) = 1490 \<and>
           (0::real) < 1490 \<and> (10::real) \<le> 10"
    by (simp add: Timer_started_25 get_remaining_def)
  have b: "s_state (snd (Session_start (Session_init None 1000000 0) 10 0 1000000 0)) = RUNNING \<and>
           Session_get_remaining
             (snd (Session_start (Session_init None 1000000 0) 10 0 1000000 0)) 146 =
             Float 454 \<and>
           (0::real) < 454"
    by (simp add: Session_started_10 Session_get_remaining_def py_max_def)
  show ?thesis
    using a b ft pause_resume_keeps_remaining
     [where t = "snd (Timer_start Timer_init (PyInt 25) 0)" and ?now1.0 = 10 and ?now2.0 = 10
        and later = 50 and v = 1490 and u = 454
        and s = "snd (Session_start (Session_init None 1000000 0) 10 0 1000000 0)"
        and monot = 146 and wall = 1000146 and ?wall2.0 = 1000200 and ?mono2.0 = 200
        and ?wall3.0 = 1000300 and ?mono3.0 = 0 and ?wall4.0 = 1000400 and ?mono4.0 = 100]
    by (simp add: Let_def split_beta)
qed

section \<open>Restart\<close>




text \<open>
  The original duration is the one given to the last successful \<^verbatim>\<open>start\<close>: no sequence
  of \<^verbatim>\<open>pause\<close>, \<^verbatim>\<open>resume\<close> and \<^verbatim>\<open>get_remaining\<close> calls, succeeding or raising, changes it or
  brings the timer back to Idle, so a restart after any such sequence succeeds and
  gives the full duration of that start.
\<close>

lemma Timer_call_keeps:
  "t_original_duration_minutes (Timer_call t c) = t_original_duration_minutes t \<and>
   (t_state t \<noteq> IDLE \<longrightarrow> t_state (Timer_call t c) \<noteq> IDLE)"
  by (cases c) (simp_all add: timer_defs Let_def split: option.split)

lemma Timer_calls_keep:
  "t_original_duration_minutes (foldl Timer_call t cs) = t_original_duration_minutes t \<and>
   (t_state t \<noteq> IDLE \<longrightarrow> t_state (foldl Timer_call t cs) \<noteq> IDLE)"
proof (induction cs arbitrary: t)
  case Nil
  show ?case by simp
next
  case (Cons c cs)
  show ?case
    using Cons.IH [of "Timer_call t c"] Timer_call_keeps [of t c] by simp
qed

lemma Timer_restart_after_calls:
  assumes "Timer_start t0 (PyInt n) now0 = (Inr (), t1)"
  shows "(let (r, t') = Timer_restart (foldl Timer_call t1 cs) now
          in r = Inr () \<and> t_state t' = RUNNING \<and> t_original_duration_minutes t' = n \<and>
             get_remaining t' now = (real_of_int n * 60, t'))"
proof -
  from Timer_start_ok [OF assms]
  have n: "1 \<le> n" "t_original_duration_minutes t1 = n" "t_state t1 = RUNNING" by auto
  let ?t = "foldl Timer_call t1 cs"
  have o: "t_original_duration_minutes ?t = n" and s: "t_state ?t \<noteq> IDLE"
    using Timer_calls_keep [of t1 cs] n by simp_all
  have "t_state ?t \<in> {RUNNING, PAUSED, EXPIRED}"
    using s by (cases "t_state ?t") simp_all
  note r = Timer_restart_ok [OF this, of now]
  show ?thesis
    unfolding r using o n(1) by (simp add: get_remaining_def Let_def)
qed

lemma Timer_restart_after_calls_example:
  "fst (get_remaining
          (snd (Timer_restart
                  (foldl Timer_call (snd (Timer_start Timer_init (PyInt 25) 0))
                     [CallPause 10 10, CallResume 50, CallGetRemaining 2000, CallPause 2001 2001])
                  3000)) 3000) = 1500"
proof -
  have "Timer_start Timer_init (PyInt 25) 0 = (Inr (), snd (Timer_start Timer_init (PyInt 25) 0))"
    by (simp add: timer_defs Timer_init_def)
  from Timer_restart_after_calls [OF this,
      of "[CallPause 10 10, CallResume 50, CallGetRemaining 2000, CallPause 2001 2001]" 3000]
  show ?thesis by (simp add: split_beta Let_def)
qed

section \<open>Status\<close>

text \<open>
  With a finite remaining time \<^verbatim>\<open>status\<close> returns, for each effective state, the
  message and the exit code of the specification.
\<close>

lemma Session_status_finite:
  "(let (e, s1) = Session_effective_state s mono1;
        out = fst (Session_status s mono1 mono2)
    in (e = RUNNING \<and> Session_get_remaining s1 mono2 = Float x \<longrightarrow>
          out = Inr (format_total (trunc_real x) @ '' remaining'', 0)) \<and>
       (e = PAUSED \<and> s_remaining_seconds s = Float y \<longrightarrow>
          out = Inr (format_total (trunc_real y) @ '' remaining (paused)'', 0)) \<and>
       (e = EXPIRED \<longrightarrow> out = Inr (''Session expired'', 1)) \<and>
       (e = IDLE \<longrightarrow> out = Inr (''No active session'', 1)))"
  by (cases "s_state s")
     (simp_all add: Session_status_def Session_effective_state_def format_remaining_Float
        Let_def)

lemma format_examples:
  "format_remaining (Float 454) = Inr ''7:34'' \<and> format_remaining (Float 5) = Inr ''0:05''"
  by (simp add: format_remaining_def fmt_defs)

lemma Session_status_examples:
  "(let s = snd (Session_start (Session_init None 1000000 0) 10 0 1000000 0)
    in fst (Session_status s 146 146) = Inr (''7:34 remaining'', 0) \<and>
       fst (Session_status (snd (Session_pause s 146 1000146)) 200 200) =
         Inr (''7:34 remaining (paused)'', 0) \<and>
       fst (Session_status s 700 700) = Inr (''Session expired'', 1) \<and>
       fst (Session_status (Session_init None 1000000 0) 0 0) = Inr (''No active session'', 1))"
proof -
  let ?s = "snd (Session_start (Session_init None 1000000 0) 10 0 1000000 0)"
  have i: "s_state (Session_init None 1000000 0) = IDLE"
    by (simp add: Session_init_def Session_load_def)
  have r: "fst (Session_status ?s 146 146) = Inr (''7:34 remaining'', 0) \<and>
           fst (Session_status ?s 700 700) = Inr (''Session expired'', 1)"
    by (simp add: Session_started_10 Session_status_def Session_effective_state_def
        Session_get_remaining_def py_max_def format_remaining_def fmt_defs Let_def)
  have p: "snd (Session_pause ?s 146 1000146) =
             Session_save (?s\<lparr>s_remaining_seconds := Float 454, s_state := PAUSED,
                               s_started_at := Float 1000146\<rparr>)"
    by (simp add: Session_started_10 Session_pause_def Session_get_remaining_def py_max_def
        Let_def)
  have q: "fst (Session_status (snd (Session_pause ?s 146 1000146)) 200 200) =
             Inr (''7:34 remaining (paused)'', 0)"
    unfolding p
    by (simp add: Session_save_def Session_status_def Session_effective_state_def
        format_remaining_def fmt_defs Let_def)
  have n: "fst (Session_status (Session_init None 1000000 0) 0 0) =
             Inr (''No active session'', 1)"
    using i by (simp add: Session_status_def Session_effective_state_def Let_def)
  show ?thesis
    using r q n by (simp add: Let_def)
qed

text \<open>
  Whenever the product of the minutes with 60.0 is \<^verbatim>\<open>inf\<close>, a start on a fresh session
  succeeds and writes the infinite remaining time, and \<^verbatim>\<open>status\<close> raises afterwards, on
  the same object and after a reload of the file.
\<close>

lemma Session_start_infinite:
  assumes "int_times_float n 60 = Inr PosInf"
  shows "(let s0 = Session_init None 1000000 0;
        s1 = snd (Session_start s0 n 0 1000000 0);
        s2 = Session_init (s_file s1) 1000001 0
    in s_state s0 = IDLE \<and>
       fst (Session_start s0 n 0 1000000 0) =
         Inr (''Session started: '' @ str_int n @ '' minutes'') \<and>
       s_state s1 = RUNNING \<and> s_remaining_seconds s1 = PosInf \<and>
       s_file s1 = Some \<lparr>js_state = Some ''running'', js_duration_minutes = Some n,
                          js_remaining_seconds = Some PosInf,
                          js_started_at = Some (Float 1000000)\<rparr> \<and>
       Session_status s1 1 1 =
         (Inl (OverflowError ''cannot convert float infinity to integer''), s1) \<and>
       s_state s2 = RUNNING \<and> s_remaining_seconds s2 = PosInf \<and>
       Session_status s2 5 5 =
         (Inl (OverflowError ''cannot convert float infinity to integer''), s2))"
proof -
  have s0: "Session_init None 1000000 0 =
              \<lparr>s_state = IDLE, s_duration_minutes = 0, s_remaining_seconds = Float 0,
               s_started_at = Float 0, s_monotonic_ref = 0, s_file = None\<rparr>"
    by (simp add: Session_init_def Session_load_def)
  have st: "Session_start
              \<lparr>s_state = IDLE, s_duration_minutes = 0, s_remaining_seconds = Float 0,
               s_started_at = Float 0, s_monotonic_ref = 0, s_file = None\<rparr> n 0 1000000 0 =
              (Inr (''Session started: '' @ str_int n @ '' minutes''),
               \<lparr>s_state = RUNNING, s_duration_minutes = n, s_remaining_seconds = PosInf,
                s_started_at = Float 1000000, s_monotonic_ref = 0,
                s_file = Some \<lparr>js_state = Some ''running'',
                                js_duration_minutes = Some n,
                                js_remaining_seconds = Some PosInf,
                                js_started_at = Some (Float 1000000)\<rparr>\<rparr>)"
    by (simp add: Session_start_def Session_effective_state_def ACTIVE_STATES_def
        Session_begin_running_def Session_save_def assms Let_def)
  show ?thesis
    unfolding s0 Let_def st snd_conv fst_conv
    by (simp add: Session_status_def Session_effective_state_def Session_get_remaining_def
        Session_init_def Session_load_def py_max_def format_remaining_def Let_def)
qed

text \<open>
  C7. The specification: \<open>Status\<close> never fails. \<^verbatim>\<open>Session.start\<close> accepts
  \<^verbatim>\<open>10**307\<close> minutes (see C2); the product with 60.0 is \<^verbatim>\<open>inf\<close>, which becomes the
  remaining time and is written to the file. From then on \<^verbatim>\<open>status\<close> raises
  \<open>OverflowError\<close> out of \<^verbatim>\<open>int(seconds)\<close>, on the same object and on every session
  that a later process loads from the file.
\<close>

theorem Session_status_raises_on_infinite_remaining:
  "(let s0 = Session_init None 1000000 0;
        s1 = snd (Session_start s0 (10 ^ 307) 0 1000000 0);
        s2 = Session_init (s_file s1) 1000001 0
    in s_state s0 = IDLE \<and>
       fst (Session_start s0 (10 ^ 307) 0 1000000 0) =
         Inr (''Session started: '' @ str_int (10 ^ 307) @ '' minutes'') \<and>
       s_state s1 = RUNNING \<and> s_remaining_seconds s1 = PosInf \<and>
       s_file s1 = Some \<lparr>js_state = Some ''running'', js_duration_minutes = Some (10 ^ 307),
                          js_remaining_seconds = Some PosInf,
                          js_started_at = Some (Float 1000000)\<rparr> \<and>
       Session_status s1 1 1 =
         (Inl (OverflowError ''cannot convert float infinity to integer''), s1) \<and>
       s_state s2 = RUNNING \<and> s_remaining_seconds s2 = PosInf \<and>
       Session_status s2 5 5 =
         (Inl (OverflowError ''cannot convert float infinity to integer''), s2))"
  by (rule Session_start_infinite [OF conjunct1 [OF int_times_float_overflow]])

section \<open>What pause, resume and status leave unchanged\<close>

text \<open>
  C8. \<open>Pause\<close> and \<open>Resume\<close> leave the original duration in minutes as it was, whether
  they succeed or raise: on the timer (where reading the remaining time leaves it too)
  and on the session (where \<^verbatim>\<open>status\<close> leaves it too), and the record that the
  session's \<^verbatim>\<open>pause\<close> and \<^verbatim>\<open>resume\<close> write carries the same \<open>duration_minutes\<close>.
\<close>

theorem pause_resume_keep_original_duration:
  "get_original_duration (snd (Timer_pause t now1 now2)) = get_original_duration t \<and>
   get_original_duration (snd (Timer_resume t now)) = get_original_duration t \<and>
   get_original_duration (snd (get_remaining t now)) = get_original_duration t \<and>
   s_duration_minutes (snd (Session_pause s monot wall)) = s_duration_minutes s \<and>
   s_duration_minutes (snd (Session_resume s wall monot)) = s_duration_minutes s \<and>
   s_duration_minutes (snd (Session_status s mono1 mono2)) = s_duration_minutes s \<and>
   map_option js_duration_minutes (s_file (snd (Session_pause s monot wall))) =
     Some (Some (s_duration_minutes s)) \<and>
   map_option js_duration_minutes (s_file (snd (Session_resume s wall monot))) =
     Some (Some (s_duration_minutes s))"
  by (simp add: get_original_duration_def timer_defs Session_pause_def Session_resume_def
      Session_status_def Session_effective_state_def Session_begin_running_def Session_save_def
      Let_def split: option.split)

text \<open>
  C10. \<^verbatim>\<open>status\<close> never writes the state file: the file after the call is the file
  before it, also when the call raises. When the call finds a running session out of
  time, it answers \<open>Session expired\<close> and the object becomes Expired, and nothing else
  changes, the file included.
\<close>

theorem status_never_writes:
  "s_file (snd (Session_status s mono1 mono2)) = s_file s \<and>
   (s_state s = RUNNING \<and> float_le (Session_get_remaining s mono1) (Float 0) \<longrightarrow>
      fst (Session_status s mono1 mono2) = Inr (''Session expired'', 1) \<and>
      snd (Session_status s mono1 mono2) = s\<lparr>s_state := EXPIRED\<rparr>)"
  by (simp add: Session_status_def Session_effective_state_def Let_def)

text \<open>
  A session started for 1 minute and read after 61 s: the answer is
  \<open>Session expired\<close>, the object is Expired, the file still records \<open>running\<close>.
\<close>

theorem status_never_writes_witness:
  "(let s1 = snd (Session_start (Session_init None 1000000 0) 1 0 1000000 0)
    in s_state s1 = RUNNING \<and> s_remaining_seconds s1 = Float 60 \<and>
       60 \<le> 61 - s_monotonic_ref s1 \<and>
       float_le (Session_get_remaining s1 61) (Float 0) \<and>
       fst (Session_status s1 61 61) = Inr (''Session expired'', 1) \<and>
       s_state (snd (Session_status s1 61 61)) = EXPIRED \<and>
       s_file (snd (Session_status s1 61 61)) =
         Some \<lparr>js_state = Some ''running'', js_duration_minutes = Some 1,
               js_remaining_seconds = Some (Float 60),
               js_started_at = Some (Float 1000000)\<rparr>)"
proof -
  let ?s = "snd (Session_start (Session_init None 1000000 0) 1 0 1000000 0)"
  have s: "?s = \<lparr>s_state = RUNNING, s_duration_minutes = 1, s_remaining_seconds = Float 60,
                 s_started_at = Float 1000000, s_monotonic_ref = 0,
                 s_file = Some \<lparr>js_state = Some ''running'', js_duration_minutes = Some 1,
                                 js_remaining_seconds = Some (Float 60),
                                 js_started_at = Some (Float 1000000)\<rparr>\<rparr>"
    by (simp add: session_defs int_times_float_60 Let_def)
  have h: "s_state ?s = RUNNING \<and> s_remaining_seconds ?s = Float 60 \<and>
           60 \<le> 61 - s_monotonic_ref ?s \<and> float_le (Session_get_remaining ?s 61) (Float 0)"
    by (simp add: s Session_get_remaining_def py_max_def)
  have f: "s_file ?s = Some \<lparr>js_state = Some ''running'', js_duration_minutes = Some 1,
                 js_remaining_seconds = Some (Float 60),
                 js_started_at = Some (Float 1000000)\<rparr>"
    by (simp add: s)
  show ?thesis
    using h f status_never_writes [where s = ?s and ?mono1.0 = 61 and ?mono2.0 = 61]
    by (simp add: Let_def)
qed

section \<open>A load that overlaps a save\<close>

text \<open>
  The locks exclude each other: no schedule reaches a state in which the writer holds
  the exclusive lock while the reader holds the shared lock.
\<close>

lemma run_keeps_locks_exclusive:
  assumes "run data sys ps = Some sys'"
    and "\<not> (writer_holds_ex sys \<and> reader_holds_sh sys)"
  shows "\<not> (writer_holds_ex sys' \<and> reader_holds_sh sys')"
  using assms
proof (induction ps arbitrary: sys)
  case Nil
  then show ?case by simp
next
  case (Cons p ps)
  show ?case
  proof (cases p)
    case Writer
    with Cons.prems obtain m where
      m: "Session_save_step data sys = Some m" and r: "run data m ps = Some sys'"
      by (auto split: option.splits)
    from m Cons.prems(2) have "\<not> (writer_holds_ex m \<and> reader_holds_sh m)"
      by (auto split: save_pc.splits if_splits)
    with r show ?thesis by (rule Cons.IH)
  next
    case Reader
    with Cons.prems obtain m where
      m: "Session_load_step sys = Some m" and r: "run data m ps = Some sys'"
      by (auto split: option.splits)
    from m Cons.prems(2) have "\<not> (writer_holds_ex m \<and> reader_holds_sh m)"
      by (auto split: load_pc.splits if_splits)
    with r show ?thesis by (rule Cons.IH)
  qed
qed

text \<open>
  When one invocation runs to its end before the other starts, the load parses a whole
  record: the new one after the save, the old one before it.
\<close>

lemma run_one_after_the_other:
  "map_option reader_result
     (run new (initial (Whole old))
        [Writer, Writer, Writer, Writer, Reader, Reader, Reader, Reader, Reader]) =
     Some (Loaded new) \<and>
   map_option reader_result
     (run new (initial (Whole old))
        [Reader, Reader, Reader, Reader, Reader, Writer, Writer, Writer, Writer]) =
     Some (Loaded old)"
  by (simp add: initial_def)

text \<open>
  C9. The specification: a save holds the exclusive lock for the whole write, the
  truncation of the old content included, so that a concurrent load never reads a torn
  record. \<^verbatim>\<open>_save\<close> opens the file with mode \<^verbatim>\<open>"w"\<close> before it asks for the lock. After
  that first call of the writer the old record is gone, the file is empty and no lock
  is held; a reader that runs its four calls now finds the file, is granted the shared
  lock, reads the empty file while it holds that lock and gets \<open>JSONDecodeError\<close>; the
  writer then waits for the reader's lock.
\<close>

theorem save_truncates_before_it_locks:
  "run new (initial (Whole old)) [Writer] =
     Some \<lparr>sys_file = Empty, writer_holds_ex = False, reader_holds_sh = False,
           writer_pc = Save_flock, reader_pc = Load_exists, reader_result = Not_read\<rparr> \<and>
   run new (initial (Whole old)) [Writer, Reader, Reader, Reader, Reader] =
     Some \<lparr>sys_file = Empty, writer_holds_ex = False, reader_holds_sh = True,
           writer_pc = Save_flock, reader_pc = Load_close, reader_result = JSONDecodeError\<rparr> \<and>
   run new (initial (Whole old)) [Writer, Reader, Reader, Reader, Reader, Writer] = None"
  by (simp add: initial_def)

end
